theory Spec2Isabelle
  imports Main "HOL-Library.Word"
begin

unbundle bit_operations_syntax

section \<open>The replay interpreter of gapir (gapir/cc/interpreter.h)\<close>

text \<open>
  The header declares the class \<open>Interpreter\<close>: the function ids and instruction codes,
  the bit masks of the 32-bit opcode, the operations of the virtual machine, and the inline
  bodies of the address checks and of \<open>getLabel\<close>. An opcode is a \<open>uint32_t\<close>, here
  \<open>32 word\<close>; an api index is a \<open>uint8_t\<close>, a function id a \<open>uint16_t\<close>.
\<close>

type_synonym opcode = "32 word"

subsection \<open>The address checks\<close>

text \<open>
  \<open>MemoryManager\<close> is only forward-declared in the header, so the four queries the
  interpreter sends to it are the fields of a record of functions: any memory manager is a
  value of this type. An address (\<open>const void*\<close>) is a word of the pointer width \<open>'p\<close>,
  \<open>nullptr\<close> is the address 0, and \<open>sizeof(void*)\<close> is that width in bytes. A
  \<open>size_t\<close> byte count is a natural number.
\<close>

record (overloaded) 'p MemoryManager =
  isConstantAddressWithSize :: "'p word \<Rightarrow> nat \<Rightarrow> bool"
  isVolatileAddressWithSize :: "'p word \<Rightarrow> nat \<Rightarrow> bool"
  isNotObservedAbsoluteAddress :: "'p word \<Rightarrow> bool"
  isConstantAddress :: "'p word \<Rightarrow> bool"


definition sizeof_voidp :: "'p::len word \<Rightarrow> nat" where
  "sizeof_voidp address = LENGTH('p) div 8"

text \<open>
  \<open>BaseType\<close>, \<open>isPointerType\<close> and \<open>baseTypeSize\<close> come from a header that is not
  part of these sources: the type is a type variable \<open>'t\<close> and the two functions are
  parameters of the checks that call them.

  interpreter.h, lines 171 to 175: the size is the pointer width for a pointer type, and
  that size goes to the memory manager.
\<close>

definition isConstantAddressForType ::
  "('t \<Rightarrow> bool) \<Rightarrow> ('t \<Rightarrow> nat) \<Rightarrow> 'p MemoryManager \<Rightarrow> 'p::len word \<Rightarrow> 't \<Rightarrow> bool" where
  "isConstantAddressForType isPointerType baseTypeSize mMemoryManager address ty =
     (let sz = (if isPointerType ty then sizeof_voidp address else baseTypeSize ty)
      in isConstantAddressWithSize mMemoryManager address sz)"

text \<open>
  interpreter.h, lines 177 to 180: the same size is computed, and then
  \<open>baseTypeSize(type)\<close> is what goes to the memory manager.
\<close>

definition isVolatileAddressForType ::
  "('t \<Rightarrow> bool) \<Rightarrow> ('t \<Rightarrow> nat) \<Rightarrow> 'p MemoryManager \<Rightarrow> 'p::len word \<Rightarrow> 't \<Rightarrow> bool" where
  "isVolatileAddressForType isPointerType baseTypeSize mMemoryManager address ty =
     (let sz = (if isPointerType ty then sizeof_voidp address else baseTypeSize ty)
      in isVolatileAddressWithSize mMemoryManager address (baseTypeSize ty))"



text \<open>
  A memory manager to evaluate the checks on: constant memory is the 16 bytes from 0x1000,
  volatile memory the 16 bytes from 0x2000, and every address outside the two blocks is
  not observed.
\<close>

definition inBlock :: "nat \<Rightarrow> nat \<Rightarrow> 64 word \<Rightarrow> nat \<Rightarrow> bool" where
  "inBlock base len address n = (base \<le> unat address \<and> unat address + n \<le> base + len)"

definition demoMemory :: "64 MemoryManager" where
  "demoMemory =
     \<lparr> isConstantAddressWithSize = inBlock 0x1000 16,
       isVolatileAddressWithSize = inBlock 0x2000 16,
       isNotObservedAbsoluteAddress =
         (\<lambda>a. \<not> inBlock 0x1000 16 a 1 \<and> \<not> inBlock 0x2000 16 a 1),
       isConstantAddress = (\<lambda>a. inBlock 0x1000 16 a 1) \<rparr>"


text \<open>
  A table of base types to evaluate the checks on: tag 0 is a one-byte type, tag 1 a
  four-byte integer, tag 2 a pointer whose nominal size is four bytes.
\<close>

definition demoIsPointerType :: "nat \<Rightarrow> bool" where
  "demoIsPointerType ty = (ty = 2)"

definition demoBaseTypeSize :: "nat \<Rightarrow> nat" where
  "demoBaseTypeSize ty = (if ty = 0 then 1 else 4)"

subsection \<open>The opcode layout\<close>

text \<open>
  interpreter.h, lines 56 to 73: the instruction codes, with the value each has in the
  enumeration (\<open>enum class InstructionCode : uint8_t\<close>).
\<close>

datatype InstructionCode =
  CALL | PUSH_I | LOAD_C | LOAD_V | LOAD | POP | STORE_V | STORE
  | RESOURCE | POST | COPY | CLONE | STRCPY | EXTEND | ADD | LABEL

fun codeValue :: "InstructionCode \<Rightarrow> 8 word" where
  "codeValue CALL = 0"
| "codeValue PUSH_I = 1"
| "codeValue LOAD_C = 2"
| "codeValue LOAD_V = 3"
| "codeValue LOAD = 4"
| "codeValue POP = 5"
| "codeValue STORE_V = 6"
| "codeValue STORE = 7"
| "codeValue RESOURCE = 8"
| "codeValue POST = 9"
| "codeValue COPY = 10"
| "codeValue CLONE = 11"
| "codeValue STRCPY = 12"
| "codeValue EXTEND = 13"
| "codeValue ADD = 14"
| "codeValue LABEL = 15"

text \<open>interpreter.h, lines 45 to 52: the function ids of the implementation's own functions.\<close>

definition POST_FUNCTION_ID :: "16 word" where
  "POST_FUNCTION_ID = 0xff00"

definition RESOURCE_FUNCTION_ID :: "16 word" where
  "RESOURCE_FUNCTION_ID = 0xff01"

definition PRINT_STACK_FUNCTION_ID :: "16 word" where
  "PRINT_STACK_FUNCTION_ID = 0xff80"

text \<open>interpreter.h, lines 96 to 106: the masks and shifts of the opcode's fields.\<close>

definition TYPE_MASK :: opcode where
  "TYPE_MASK = 0x03f00000"

definition FUNCTION_ID_MASK :: opcode where
  "FUNCTION_ID_MASK = 0x0000ffff"

definition API_INDEX_MASK :: opcode where
  "API_INDEX_MASK = 0x000f0000"

definition PUSH_RETURN_MASK :: opcode where
  "PUSH_RETURN_MASK = 0x01000000"

definition DATA_MASK20 :: opcode where
  "DATA_MASK20 = 0x000fffff"

definition DATA_MASK26 :: opcode where
  "DATA_MASK26 = 0x03ffffff"

definition API_BIT_SHIFT :: nat where
  "API_BIT_SHIFT = 16"

definition TYPE_BIT_SHIFT :: nat where
  "TYPE_BIT_SHIFT = 20"

definition OPCODE_BIT_SHIFT :: nat where
  "OPCODE_BIT_SHIFT = 26"

text \<open>
  The field readers. The header declares \<open>extractType\<close>, \<open>extract20bitData\<close> and
  \<open>extract26bitData\<close> (lines 108 to 116) and keeps the masks above for them; their
  bodies are in the implementation file. Each reader applies the mask the header names for
  its field and shifts by the shift the header names for it. \<open>extractType\<close> gives the
  raw tag, before it is read as a \<open>BaseType\<close>.
\<close>

definition extractCode :: "opcode \<Rightarrow> opcode" where
  \<comment> \<open>Modelled from the spec: the instruction code is the top 6 bits, the opcode shifted
      by \<open>OPCODE_BIT_SHIFT\<close>; the expression is in the body of \<open>interpret\<close>.\<close>
  "extractCode opc = drop_bit OPCODE_BIT_SHIFT opc"

definition extractType :: "opcode \<Rightarrow> opcode" where
  \<comment> \<open>Modelled from the spec: the body of \<open>extractType\<close>; bits 20 to 25, as
      \<open>TYPE_MASK\<close> and \<open>TYPE_BIT_SHIFT\<close> give them (the header's comment, line 108,
      speaks of the 7th to 13th most significant bit; the mask is followed).\<close>
  "extractType opc = drop_bit TYPE_BIT_SHIFT (opc AND TYPE_MASK)"

definition extract20bitData :: "opcode \<Rightarrow> opcode" where
  \<comment> \<open>Modelled from the spec: the body of \<open>extract20bitData\<close>; the masked 20 low bits
      (the header's comment, line 112: the data in the 20 least significant bits).\<close>
  "extract20bitData opc = opc AND DATA_MASK20"

definition extract26bitData :: "opcode \<Rightarrow> opcode" where
  \<comment> \<open>Modelled from the spec: the body of \<open>extract26bitData\<close>; the masked 26 low bits
      (the header's comment, line 115: the data in the 26 least significant bits).\<close>
  "extract26bitData opc = opc AND DATA_MASK26"

definition extractApiIndex :: "opcode \<Rightarrow> 8 word" where
  \<comment> \<open>Modelled from the spec: the api index that \<open>call\<close> decodes, bits 16 to 19, passed
      on as a \<open>uint8_t\<close>.\<close>
  "extractApiIndex opc = ucast (drop_bit API_BIT_SHIFT (opc AND API_INDEX_MASK))"

definition extractFunctionId :: "opcode \<Rightarrow> 16 word" where
  \<comment> \<open>Modelled from the spec: the function id that \<open>call\<close> decodes, bits 0 to 15.\<close>
  "extractFunctionId opc = ucast (opc AND FUNCTION_ID_MASK)"

definition extractPushReturn :: "opcode \<Rightarrow> bool" where
  \<comment> \<open>Modelled from the spec: the push-return flag that \<open>call\<close> decodes, bit 24.\<close>
  "extractPushReturn opc = (opc AND PUSH_RETURN_MASK \<noteq> 0)"

definition disjointMasks :: "opcode \<Rightarrow> opcode \<Rightarrow> bool" where
  "disjointMasks m1 m2 = (m1 AND m2 = 0)"

definition instructionCode :: "opcode \<Rightarrow> InstructionCode option" where
  \<comment> \<open>Modelled from the spec: the dispatch of \<open>interpret\<close> on the instruction code; the
      sixteen values of the enumeration are recognised, any other value is an error.\<close>
  "instructionCode opc =
     List.find (\<lambda>c. ucast (codeValue c) = extractCode opc)
       [CALL, PUSH_I, LOAD_C, LOAD_V, LOAD, POP, STORE_V, STORE,
        RESOURCE, POST, COPY, CLONE, STRCPY, EXTEND, ADD, LABEL]"

definition codeFieldMask :: opcode where
  \<comment> \<open>The bits of an opcode that the shift by \<open>OPCODE_BIT_SHIFT\<close> keeps.\<close>
  "codeFieldMask = push_bit OPCODE_BIT_SHIFT (- 1)"

subsection \<open>The interpreter's state and its operations\<close>

text \<open>
  The members of the class (interpreter.h, lines 152 to 168) that the operations below
  use. A \<open>FunctionTable\<close> is a map from function ids to callables of a type \<open>'fn\<close>;
  \<open>mRendererFunctions\<close> maps an api index to the table bound to it (a pointer to a table
  of the host in the source; the table itself here). \<open>mStack\<close> is kept abstract: the type
  \<open>'m\<close> stands for the operand stack together with the memory that handlers and called
  functions reach from it.
\<close>

record ('fn, 'm) Interpreter =
  mBuiltins :: "16 word \<rightharpoonup> 'fn"
  mRendererFunctions :: "8 word \<rightharpoonup> (16 word \<rightharpoonup> 'fn)"
  mStack :: 'm
  mLabel :: "32 word"

text \<open>interpreter.h, lines 192 to 194.\<close>

definition getLabel :: "('fn, 'm) Interpreter \<Rightarrow> 32 word" where
  "getLabel s = mLabel s"

text \<open>
  The registration callback (\<open>ApiRequestCallback\<close>, line 41) receives the interpreter
  and an api index and answers with a boolean; what it does to the interpreter is its
  second result.
\<close>

type_synonym ('fn, 'm) ApiRequestCallback =
  "('fn, 'm) Interpreter \<Rightarrow> 8 word \<Rightarrow> bool \<times> ('fn, 'm) Interpreter"

definition apiIndexInRange :: "8 word \<Rightarrow> bool" where
  \<comment> \<open>Modelled from the spec: the valid range of an api index, 0 to 15, that
      \<open>registerApi\<close> tests.\<close>
  "apiIndexInRange api = (unat api \<le> 15)"

definition registerApi ::
  "('fn, 'm) ApiRequestCallback \<Rightarrow> ('fn, 'm) Interpreter \<Rightarrow> 8 word
     \<Rightarrow> bool \<times> 8 word list \<times> ('fn, 'm) Interpreter" where
  \<comment> \<open>Modelled from the spec: the body of \<open>registerApi\<close>. An api with a bound table is a
      success with no side effect; otherwise the callback is invoked with the interpreter
      and the api, and the result is false when the callback answers false or the api index
      is outside 0 to 15. The second component of the result lists the api indices the
      callback was invoked with.\<close>
  "registerApi apiRequestCallback s api =
     (if mRendererFunctions s api \<noteq> None then (True, [], s)
      else (case apiRequestCallback s api of
              (ok, s') \<Rightarrow> (ok \<and> apiIndexInRange api, [api], s')))"

definition isBuiltinFunctionId :: "16 word \<Rightarrow> bool" where
  \<comment> \<open>The ids of lines 45 to 52: the custom and debug function ids, and the range
      0xff81 to 0xffff that the enumeration reserves for synthetic functions.\<close>
  "isBuiltinFunctionId fid =
     (fid = POST_FUNCTION_ID \<or> fid = RESOURCE_FUNCTION_ID \<or> fid = PRINT_STACK_FUNCTION_ID
      \<or> 0xff81 \<le> fid)"

datatype FunctionSource = Builtin | Renderer "8 word"

definition functionSource :: "opcode \<Rightarrow> FunctionSource" where
  \<comment> \<open>Modelled from the spec: which table \<open>call\<close> resolves the function in; the builtin
      table for an implementation-defined id, the api's renderer table otherwise.\<close>
  "functionSource opc =
     (if isBuiltinFunctionId (extractFunctionId opc) then Builtin
      else Renderer (extractApiIndex opc))"

definition resolveFunction ::
  "('fn, 'm) ApiRequestCallback \<Rightarrow> ('fn, 'm) Interpreter \<Rightarrow> opcode
     \<Rightarrow> 'fn option \<times> 8 word list \<times> ('fn, 'm) Interpreter" where
  \<comment> \<open>Modelled from the spec: the function resolution of \<open>call\<close>; a renderer function
      is looked up in the api's table after \<open>registerApi\<close> has succeeded.\<close>
  "resolveFunction apiRequestCallback s opc =
     (case functionSource opc of
        Builtin \<Rightarrow> (mBuiltins s (extractFunctionId opc), [], s)
      | Renderer api \<Rightarrow>
          (case registerApi apiRequestCallback s api of
             (ok, calls, s') \<Rightarrow>
               (if ok then
                  (case mRendererFunctions s' api of
                     None \<Rightarrow> (None, calls, s')
                   | Some functionTable \<Rightarrow> (functionTable (extractFunctionId opc), calls, s'))
                else (None, calls, s'))))"

definition call ::
  "('fn \<Rightarrow> bool \<Rightarrow> 'm \<Rightarrow> bool \<times> 'm) \<Rightarrow> ('fn, 'm) ApiRequestCallback
     \<Rightarrow> ('fn, 'm) Interpreter \<Rightarrow> opcode \<Rightarrow> bool \<times> ('fn, 'm) Interpreter" where
  \<comment> \<open>Modelled from the spec: the body of \<open>call\<close>. A function that cannot be resolved is
      a failure; a resolved function is invoked on the stack with the push-return flag
      (\<open>invoke\<close> stands for popping the arguments, the call and the push of the result).\<close>
  "call invoke apiRequestCallback s opc =
     (case resolveFunction apiRequestCallback s opc of
        (None, calls, s') \<Rightarrow> (False, s')
      | (Some f, calls, s') \<Rightarrow>
          (case invoke f (extractPushReturn opc) (mStack s') of
             (ok, m') \<Rightarrow> (ok, s'\<lparr>mStack := m'\<rparr>)))"

definition label :: "('fn, 'm) Interpreter \<Rightarrow> opcode \<Rightarrow> bool \<times> ('fn, 'm) Interpreter" where
  \<comment> \<open>Modelled from the spec: the body of \<open>label\<close>; sets the last-label state to the
      26-bit data field and always succeeds.\<close>
  "label s opc = (True, s\<lparr>mLabel := extract26bitData opc\<rparr>)"

text \<open>
  The fourteen handlers besides \<open>call\<close> and \<open>label\<close> work on the stack and on memory;
  they are a parameter \<open>handlers\<close>, one function per instruction code, each answering
  with its success and the stack it leaves.
\<close>

type_synonym 'm Handlers = "InstructionCode \<Rightarrow> opcode \<Rightarrow> 'm \<Rightarrow> bool \<times> 'm"

definition interpretOpcode ::
  "'m Handlers \<Rightarrow> ('fn \<Rightarrow> bool \<Rightarrow> 'm \<Rightarrow> bool \<times> 'm) \<Rightarrow> ('fn, 'm) ApiRequestCallback
     \<Rightarrow> ('fn, 'm) Interpreter \<Rightarrow> opcode \<Rightarrow> bool \<times> ('fn, 'm) Interpreter" where
  \<comment> \<open>Modelled from the spec: the body of \<open>Interpreter::interpret\<close> (the name is a
      keyword of Isabelle, hence the suffix); decodes the instruction code and dispatches
      to the handler, an unrecognised code is a failure.\<close>
  "interpretOpcode handlers invoke apiRequestCallback s opc =
     (case instructionCode opc of
        None \<Rightarrow> (False, s)
      | Some CALL \<Rightarrow> call invoke apiRequestCallback s opc
      | Some LABEL \<Rightarrow> label s opc
      | Some c \<Rightarrow>
          (case handlers c opc (mStack s) of (ok, m') \<Rightarrow> (ok, s\<lparr>mStack := m'\<rparr>)))"

text \<open>
  Modelled from the spec: the body of \<open>run\<close>. It interprets the opcodes of the buffer in
  order, returns false at the first handler that fails and true when the buffer is
  exhausted. The second component of the result counts the opcodes handed to
  \<open>interpret\<close>.
\<close>

fun run ::
  "'m Handlers \<Rightarrow> ('fn \<Rightarrow> bool \<Rightarrow> 'm \<Rightarrow> bool \<times> 'm) \<Rightarrow> ('fn, 'm) ApiRequestCallback
     \<Rightarrow> ('fn, 'm) Interpreter \<Rightarrow> opcode list \<Rightarrow> bool \<times> nat \<times> ('fn, 'm) Interpreter" where
  "run handlers invoke cb s [] = (True, 0, s)"
| "run handlers invoke cb s (opc # rest) =
     (case interpretOpcode handlers invoke cb s opc of
        (False, s') \<Rightarrow> (False, 1, s')
      | (True, s') \<Rightarrow>
          (case run handlers invoke cb s' rest of (ok, n, s'') \<Rightarrow> (ok, Suc n, s'')))"

definition callbackKeepsLabel :: "('fn, 'm) ApiRequestCallback \<Rightarrow> bool" where
  \<comment> \<open>The callback registers functions and does not run instructions itself: the label
      is as before when it returns.\<close>
  "callbackKeepsLabel apiRequestCallback =
     (\<forall>s api. mLabel (snd (apiRequestCallback s api)) = mLabel s)"

subsection \<open>An interpreter to evaluate the operations on\<close>





section \<open>Properties of the address checks\<close>

lemma isConstantAddressForType_size:
  "isConstantAddressForType isPtr bts mm a ty =
     isConstantAddressWithSize mm a (if isPtr ty then sizeof_voidp a else bts ty)"
  by (simp add: isConstantAddressForType_def)

lemma isVolatileAddressForType_size:
  "isVolatileAddressForType isPtr bts mm a ty = isVolatileAddressWithSize mm a (bts ty)"
  by (simp add: isVolatileAddressForType_def)

text \<open>
  C1, at a failing input. On a 64-bit target the pointer stored in the last four bytes of
  the volatile block (address 0x200c) passes the volatile check, because the check asks
  about \<open>baseTypeSize\<close> = 4 bytes; the pointer-width question (8 bytes), which the
  constant check does ask, is answered with no for that address.
\<close>

theorem isVolatileAddressForType_pointer_size_ignored:
  "isVolatileAddressForType demoIsPointerType demoBaseTypeSize demoMemory 0x200c 2 = True
   \<and> isVolatileAddressWithSize demoMemory 0x200c (sizeof_voidp (0x200c :: 64 word)) = False
   \<and> demoIsPointerType 2
   \<and> sizeof_voidp (0x200c :: 64 word) = 8 \<and> demoBaseTypeSize 2 = 4"
  by (simp add: isVolatileAddressForType_def demoMemory_def inBlock_def sizeof_voidp_def
      demoIsPointerType_def demoBaseTypeSize_def)




section \<open>Properties of the opcode layout\<close>

subsection \<open>The masks as bit ranges\<close>

lemma TYPE_MASK_range: "TYPE_MASK = push_bit 20 (mask 6)"
  by (simp add: TYPE_MASK_def mask_eq_exp_minus_1)

lemma DATA_MASK20_range: "DATA_MASK20 = mask 20"
  by (simp add: DATA_MASK20_def mask_eq_exp_minus_1)

lemma DATA_MASK26_range: "DATA_MASK26 = mask 26"
  by (simp add: DATA_MASK26_def mask_eq_exp_minus_1)

lemma API_INDEX_MASK_range: "API_INDEX_MASK = push_bit 16 (mask 4)"
  by (simp add: API_INDEX_MASK_def mask_eq_exp_minus_1)

lemma FUNCTION_ID_MASK_range: "FUNCTION_ID_MASK = mask 16"
  by (simp add: FUNCTION_ID_MASK_def mask_eq_exp_minus_1)

lemma PUSH_RETURN_MASK_range: "PUSH_RETURN_MASK = 2 ^ 24"
  by (simp add: PUSH_RETURN_MASK_def)

lemma bit_codeFieldMask: "bit codeFieldMask n \<longleftrightarrow> 26 \<le> n \<and> n \<le> 31"
  by (auto simp add: codeFieldMask_def OPCODE_BIT_SHIFT_def bit_simps)

lemma bit_TYPE_MASK: "bit TYPE_MASK n \<longleftrightarrow> 20 \<le> n \<and> n \<le> 25"
  by (auto simp add: TYPE_MASK_range bit_simps)

lemma bit_DATA_MASK26: "bit DATA_MASK26 n \<longleftrightarrow> n \<le> 25"
  by (auto simp add: DATA_MASK26_range bit_simps)

lemma bit_DATA_MASK20: "bit DATA_MASK20 n \<longleftrightarrow> n \<le> 19"
  by (auto simp add: DATA_MASK20_range bit_simps)

lemma bit_API_INDEX_MASK: "bit API_INDEX_MASK n \<longleftrightarrow> 16 \<le> n \<and> n \<le> 19"
  by (auto simp add: API_INDEX_MASK_range bit_simps)

lemma bit_PUSH_RETURN_MASK: "bit PUSH_RETURN_MASK n \<longleftrightarrow> n = 24"
  by (simp only: PUSH_RETURN_MASK_range bit_exp_iff) (auto simp add: possible_bit_word)

lemma bit_FUNCTION_ID_MASK: "bit FUNCTION_ID_MASK n \<longleftrightarrow> n \<le> 15"
  by (auto simp add: FUNCTION_ID_MASK_range bit_simps)

lemmas bit_masks =
  bit_codeFieldMask bit_TYPE_MASK bit_DATA_MASK26 bit_DATA_MASK20 bit_API_INDEX_MASK
  bit_PUSH_RETURN_MASK bit_FUNCTION_ID_MASK

subsection \<open>The fields as bit ranges of the opcode\<close>

lemma bit_extractCode: "bit (extractCode opc) n \<longleftrightarrow> n < 6 \<and> bit opc (n + 26)"
  by (auto simp add: extractCode_def OPCODE_BIT_SHIFT_def bit_simps add.commute
      dest: bit_imp_le_length)

lemma bit_extractType: "bit (extractType opc) n \<longleftrightarrow> n < 6 \<and> bit opc (n + 20)"
  by (auto simp add: extractType_def TYPE_MASK_range TYPE_BIT_SHIFT_def bit_simps add.commute
      dest: bit_imp_le_length)

lemma bit_extract26bitData: "bit (extract26bitData opc) n \<longleftrightarrow> n < 26 \<and> bit opc n"
  by (auto simp add: extract26bitData_def DATA_MASK26_range bit_simps)

lemma bit_extract20bitData: "bit (extract20bitData opc) n \<longleftrightarrow> n < 20 \<and> bit opc n"
  by (auto simp add: extract20bitData_def DATA_MASK20_range bit_simps)

lemma bit_extractApiIndex: "bit (extractApiIndex opc) n \<longleftrightarrow> n < 4 \<and> bit opc (n + 16)"
  by (auto simp add: extractApiIndex_def API_INDEX_MASK_range API_BIT_SHIFT_def bit_simps
      add.commute dest: bit_imp_le_length)

lemma bit_extractFunctionId: "bit (extractFunctionId opc) n \<longleftrightarrow> n < 16 \<and> bit opc n"
  by (auto simp add: extractFunctionId_def FUNCTION_ID_MASK_range bit_simps
      dest: bit_imp_le_length)

lemma extractPushReturn_bit: "extractPushReturn opc \<longleftrightarrow> bit opc 24"
  by (simp only: extractPushReturn_def PUSH_RETURN_MASK_range and_exp_eq_0_iff_not_bit) simp

lemma extractCode_mask: "extractCode opc = drop_bit OPCODE_BIT_SHIFT (opc AND codeFieldMask)"
  by (rule bit_word_eqI)
    (auto simp add: extractCode_def bit_codeFieldMask OPCODE_BIT_SHIFT_def bit_simps
      dest: bit_imp_le_length)

lemma disjointMasks_bits: "disjointMasks m1 m2 \<longleftrightarrow> (\<forall>n. \<not> (bit m1 n \<and> bit m2 n))"
proof
  assume "disjointMasks m1 m2"
  then have "\<not> bit (m1 AND m2) n" for n
    by (simp add: disjointMasks_def)
  then show "\<forall>n. \<not> (bit m1 n \<and> bit m2 n)"
    by (simp add: bit_and_iff)
next
  assume "\<forall>n. \<not> (bit m1 n \<and> bit m2 n)"
  then have "m1 AND m2 = 0"
    by (intro bit_word_eqI) (simp add: bit_and_iff)
  then show "disjointMasks m1 m2"
    by (simp add: disjointMasks_def)
qed

lemma typed_class_disjoint:
  "disjointMasks codeFieldMask TYPE_MASK" "disjointMasks codeFieldMask DATA_MASK20"
  "disjointMasks TYPE_MASK DATA_MASK20"
  by (simp_all add: disjointMasks_bits bit_masks)

lemma data26_class_disjoint: "disjointMasks codeFieldMask DATA_MASK26"
  by (simp add: disjointMasks_bits bit_masks)

lemma call_class_disjoint:
  "disjointMasks codeFieldMask PUSH_RETURN_MASK" "disjointMasks codeFieldMask API_INDEX_MASK"
  "disjointMasks codeFieldMask FUNCTION_ID_MASK" "disjointMasks PUSH_RETURN_MASK API_INDEX_MASK"
  "disjointMasks PUSH_RETURN_MASK FUNCTION_ID_MASK" "disjointMasks API_INDEX_MASK FUNCTION_ID_MASK"
  by (simp_all add: disjointMasks_bits bit_masks)

text \<open>
  C4. The masks of the header cover exactly the bit positions of the wire contract: the
  instruction code (the bits the shift by 26 keeps) bits 26 to 31, the type bits 20 to 25,
  the 26-bit data bits 0 to 25, the 20-bit data bits 0 to 19, the api index bits 16 to 19,
  the push-return flag bit 24 and the function id bits 0 to 15. The masks of the fields
  that one class of instructions reads are pairwise disjoint: code, type and 20-bit data
  for the typed instructions; code and 26-bit data for the instructions with a 26-bit
  operand; code, push-return flag, api index and function id for a call. Every field
  reader, applying its mask and shift, reads exactly the bits of its field.
\<close>

theorem opcode_fields_positions_and_disjointness:
  "(bit codeFieldMask n \<longleftrightarrow> 26 \<le> n \<and> n \<le> 31)
   \<and> (bit TYPE_MASK n \<longleftrightarrow> 20 \<le> n \<and> n \<le> 25)
   \<and> (bit DATA_MASK26 n \<longleftrightarrow> n \<le> 25)
   \<and> (bit DATA_MASK20 n \<longleftrightarrow> n \<le> 19)
   \<and> (bit API_INDEX_MASK n \<longleftrightarrow> 16 \<le> n \<and> n \<le> 19)
   \<and> (bit PUSH_RETURN_MASK n \<longleftrightarrow> n = 24)
   \<and> (bit FUNCTION_ID_MASK n \<longleftrightarrow> n \<le> 15)
   \<and> disjointMasks codeFieldMask TYPE_MASK \<and> disjointMasks codeFieldMask DATA_MASK20
   \<and> disjointMasks TYPE_MASK DATA_MASK20
   \<and> disjointMasks codeFieldMask DATA_MASK26
   \<and> disjointMasks codeFieldMask PUSH_RETURN_MASK \<and> disjointMasks codeFieldMask API_INDEX_MASK
   \<and> disjointMasks codeFieldMask FUNCTION_ID_MASK
   \<and> disjointMasks PUSH_RETURN_MASK API_INDEX_MASK
   \<and> disjointMasks PUSH_RETURN_MASK FUNCTION_ID_MASK
   \<and> disjointMasks API_INDEX_MASK FUNCTION_ID_MASK
   \<and> extractCode opc = drop_bit OPCODE_BIT_SHIFT (opc AND codeFieldMask)
   \<and> (bit (extractCode opc) n \<longleftrightarrow> n < 6 \<and> bit opc (n + 26))
   \<and> (bit (extractType opc) n \<longleftrightarrow> n < 6 \<and> bit opc (n + 20))
   \<and> (bit (extract26bitData opc) n \<longleftrightarrow> n < 26 \<and> bit opc n)
   \<and> (bit (extract20bitData opc) n \<longleftrightarrow> n < 20 \<and> bit opc n)
   \<and> (bit (extractApiIndex opc) n \<longleftrightarrow> n < 4 \<and> bit opc (n + 16))
   \<and> (extractPushReturn opc \<longleftrightarrow> bit opc 24)
   \<and> (bit (extractFunctionId opc) n \<longleftrightarrow> n < 16 \<and> bit opc n)"
  by (intro conjI bit_extractCode bit_extractType bit_extract26bitData bit_extract20bitData
      bit_extractApiIndex extractPushReturn_bit bit_extractFunctionId extractCode_mask
      bit_masks typed_class_disjoint data26_class_disjoint call_class_disjoint)

subsection \<open>The 26-bit data field as type field and 20-bit data field\<close>

lemma DATA_MASK26_split:
  "DATA_MASK26 = TYPE_MASK OR DATA_MASK20" "TYPE_MASK AND DATA_MASK20 = 0"
  by (simp_all add: DATA_MASK26_def TYPE_MASK_def DATA_MASK20_def)

lemma extract26bitData_split:
  "extract26bitData opc = (opc AND TYPE_MASK) + extract20bitData opc"
proof -
  have "(opc AND TYPE_MASK) AND (opc AND DATA_MASK20) = opc AND (TYPE_MASK AND DATA_MASK20)"
    by (simp add: ac_simps)
  then have disjoint: "(opc AND TYPE_MASK) AND (opc AND DATA_MASK20) = 0"
    by (simp add: DATA_MASK26_split)
  have "(opc AND TYPE_MASK) + (opc AND DATA_MASK20) = (opc AND TYPE_MASK) OR (opc AND DATA_MASK20)"
    by (rule disjunctive_add_eq_or) (rule disjoint)
  also have "\<dots> = opc AND (TYPE_MASK OR DATA_MASK20)"
    by (simp add: bit.conj_disj_distrib)
  finally show ?thesis
    by (simp add: extract26bitData_def extract20bitData_def DATA_MASK26_split)
qed

lemma type_bits_in_place: "opc AND TYPE_MASK = push_bit TYPE_BIT_SHIFT (extractType opc)"
  by (rule bit_word_eqI)
    (auto simp add: bit_extractType bit_TYPE_MASK TYPE_BIT_SHIFT_def bit_simps)

text \<open>
  C10. \<open>DATA_MASK26\<close> is the union of \<open>TYPE_MASK\<close> and \<open>DATA_MASK20\<close>, which share no
  bit, so the 26-bit data of an opcode is the sum of its type bits, standing at bits 20 to
  25, and its 20-bit data.
\<close>

theorem data26_is_type_and_data20:
  "DATA_MASK26 = TYPE_MASK OR DATA_MASK20
   \<and> TYPE_MASK AND DATA_MASK20 = 0
   \<and> opc AND DATA_MASK26 = (opc AND TYPE_MASK) + (opc AND DATA_MASK20)
   \<and> extract26bitData opc = (opc AND TYPE_MASK) + extract20bitData opc
   \<and> opc AND TYPE_MASK = push_bit TYPE_BIT_SHIFT (extractType opc)
   \<and> extract26bitData opc = push_bit TYPE_BIT_SHIFT (extractType opc) + extract20bitData opc"
proof -
  have masked: "opc AND DATA_MASK26 = (opc AND TYPE_MASK) + (opc AND DATA_MASK20)"
    using extract26bitData_split [of opc]
    by (simp only: extract26bitData_def extract20bitData_def)
  from masked extract26bitData_split [of opc] type_bits_in_place [of opc] show ?thesis
    by (simp add: DATA_MASK26_split)
qed

subsection \<open>The instruction code\<close>

lemma codeValue_inj: "codeValue c = codeValue c' \<longleftrightarrow> c = c'"
  by (cases c; cases c'; simp)

lemma codeValue_less: "codeValue c < 16"
  by (cases c) simp_all

lemma extractCode_less: "extractCode opc < 64"
proof -
  have "extractCode opc = extractCode opc AND mask 6"
    by (rule bit_word_eqI) (auto simp add: bit_extractCode bit_simps)
  also have "\<dots> < 2 ^ 6"
    by (rule and_mask_less_size) (simp add: word_size)
  finally show ?thesis by simp
qed

lemma instructionCode_Some:
  "instructionCode opc = Some c \<longleftrightarrow> extractCode opc = ucast (codeValue c)"
  by (cases c) (auto simp add: instructionCode_def)

lemma word_less_16_cases:
  fixes v :: opcode
  assumes "v < 16"
  shows "v \<in> {0, 1, 2, 3, 4, 5, 6, 7, 8, 9, 10, 11, 12, 13, 14, 15}"
proof -
  from assms have "unat v < 16"
    by (simp add: word_less_nat_alt)
  then have "unat v \<in> {0, 1, 2, 3, 4, 5, 6, 7, 8, 9, 10, 11, 12, 13, 14, 15}"
    by (simp only: insert_iff empty_iff) arith
  then have "(of_nat (unat v) :: opcode)
      \<in> of_nat ` {0, 1, 2, 3, 4, 5, 6, 7, 8, 9, 10, 11, 12, 13, 14, 15}"
    by (rule imageI)
  then show ?thesis by simp
qed

lemma instructionCode_None: "instructionCode opc = None \<longleftrightarrow> 16 \<le> extractCode opc"
proof
  assume "instructionCode opc = None"
  then have "extractCode opc \<notin> {0, 1, 2, 3, 4, 5, 6, 7, 8, 9, 10, 11, 12, 13, 14, 15}"
    by (auto simp add: instructionCode_def split: if_splits)
  with word_less_16_cases [of "extractCode opc"] show "16 \<le> extractCode opc"
    by (auto simp add: not_less [symmetric])
next
  assume "16 \<le> extractCode opc"
  then show "instructionCode opc = None"
    by (auto simp add: instructionCode_def word_le_nat_alt)
qed

lemma ucast_codeValue_inj:
  "(ucast (codeValue c) :: opcode) = ucast (codeValue c') \<longleftrightarrow> c = c'"
  by (cases c; cases c'; simp)

text \<open>
  C3. The top field of an opcode, its value shifted right by 26, is below 64. The decoder
  answers with a code exactly when the field holds the value of that code in the
  enumeration, and with the error exactly when the field holds 16 or more, which is
  exactly when no code of the enumeration has the field's value. The sixteen codes have
  pairwise different values, all below 16, so two opcodes that decode to different codes
  differ in their top field.
\<close>

theorem instructionCode_decoding:
  "extractCode opc = drop_bit 26 opc
   \<and> extractCode opc < 64
   \<and> (instructionCode opc = Some c \<longleftrightarrow> extractCode opc = ucast (codeValue c))
   \<and> (instructionCode opc = None \<longleftrightarrow> 16 \<le> extractCode opc)
   \<and> (instructionCode opc = None \<longleftrightarrow> (\<forall>d. extractCode opc \<noteq> ucast (codeValue d)))
   \<and> codeValue c < 16
   \<and> (codeValue c = codeValue c' \<longleftrightarrow> c = c')
   \<and> (instructionCode opc = Some c \<and> instructionCode opc' = Some c' \<and> c \<noteq> c'
        \<longrightarrow> extractCode opc \<noteq> extractCode opc')"
proof -
  have shift: "extractCode opc = drop_bit 26 opc"
    by (simp add: extractCode_def OPCODE_BIT_SHIFT_def)
  have apart: "instructionCode opc = Some c \<and> instructionCode opc' = Some c' \<and> c \<noteq> c'
      \<longrightarrow> extractCode opc \<noteq> extractCode opc'"
    by (simp add: instructionCode_Some ucast_codeValue_inj)
  have none: "instructionCode opc = None \<longleftrightarrow> (\<forall>d. extractCode opc \<noteq> ucast (codeValue d))"
    using instructionCode_Some [of opc] by (cases "instructionCode opc") auto
  show ?thesis
    by (intro conjI shift extractCode_less instructionCode_Some instructionCode_None none
        codeValue_less codeValue_inj apart)
qed

theorem instructionCode_decoding_witness:
  "instructionCode 0x3c000005 = Some LABEL \<and> instructionCode 0x00030007 = Some CALL
   \<and> LABEL \<noteq> CALL \<and> extractCode 0x3c000005 \<noteq> extractCode 0x00030007
   \<and> instructionCode 0x40000000 = None"
  using instructionCode_decoding [of "0x3c000005" LABEL CALL "0x00030007"]
    instructionCode_decoding [of "0x40000000" CALL CALL "0x40000000"]
  by (simp add: instructionCode_def extractCode_def OPCODE_BIT_SHIFT_def)

subsection \<open>The api index\<close>

lemma extractApiIndex_less: "extractApiIndex opc < 16"
proof -
  have "extractApiIndex opc = extractApiIndex opc AND mask 4"
    by (rule bit_word_eqI) (auto simp add: bit_extractApiIndex bit_simps)
  also have "\<dots> < 2 ^ 4"
    by (rule and_mask_less_size) (simp add: word_size)
  finally show ?thesis by simp
qed

lemma unat_extractApiIndex_less: "unat (extractApiIndex opc) < 16"
  using extractApiIndex_less [of opc] by (simp add: word_less_nat_alt)

text \<open>
  C9. The api index decoded from an opcode, \<open>(opcode & API_INDEX_MASK) >> API_BIT_SHIFT\<close>,
  is below 16 for every opcode. So a decoded api index always passes the range test of
  \<open>registerApi\<close>: the branch that fails for an index outside 0 to 15 is never taken for
  it.
\<close>

theorem decoded_api_index_in_range:
  "drop_bit API_BIT_SHIFT (opc AND API_INDEX_MASK) < 16
   \<and> unat (extractApiIndex opc) < 16
   \<and> extractApiIndex opc < 16
   \<and> extractApiIndex opc = ucast (drop_bit 16 (opc AND 0x000f0000))
   \<and> apiIndexInRange (extractApiIndex opc)"
proof -
  have "drop_bit API_BIT_SHIFT (opc AND API_INDEX_MASK)
      = drop_bit API_BIT_SHIFT (opc AND API_INDEX_MASK) AND mask 4"
    by (rule bit_word_eqI)
      (auto simp add: API_INDEX_MASK_range API_BIT_SHIFT_def bit_simps)
  also have "\<dots> < 2 ^ 4"
    by (rule and_mask_less_size) (simp add: word_size)
  finally have field: "drop_bit API_BIT_SHIFT (opc AND API_INDEX_MASK) < 16"
    by simp
  have shape: "extractApiIndex opc = ucast (drop_bit 16 (opc AND 0x000f0000))"
    by (simp add: extractApiIndex_def API_INDEX_MASK_def API_BIT_SHIFT_def)
  have range: "apiIndexInRange (extractApiIndex opc)"
    using unat_extractApiIndex_less [of opc] by (simp add: apiIndexInRange_def)
  show ?thesis
    by (intro conjI field unat_extractApiIndex_less extractApiIndex_less shape range)
qed

text \<open>
  What the range test of \<open>registerApi\<close> decides: an unbound api index above 15 fails
  whatever the callback answers, and for a decoded api index the operation is the one
  without the test.
\<close>

lemma registerApi_out_of_range:
  "\<not> apiIndexInRange api \<Longrightarrow> mRendererFunctions s api = None \<Longrightarrow>
     fst (registerApi cb s api) = False"
  by (simp add: registerApi_def split: prod.splits)

lemma registerApi_decoded_api_index:
  "registerApi cb s (extractApiIndex opc) =
     (if mRendererFunctions s (extractApiIndex opc) \<noteq> None then (True, [], s)
      else (case cb s (extractApiIndex opc) of
              (ok, s') \<Rightarrow> (ok, [extractApiIndex opc], s')))"
  using unat_extractApiIndex_less [of opc]
  by (simp add: registerApi_def apiIndexInRange_def split: prod.splits)

section \<open>Properties of the interpreter loop\<close>

lemma run_append:
  "run H invoke cb s (xs @ ys) =
     (case run H invoke cb s xs of
        (True, n, s') \<Rightarrow> (case run H invoke cb s' ys of (ok, k, s'') \<Rightarrow> (ok, n + k, s''))
      | (False, n, s') \<Rightarrow> (False, n, s'))"
  by (induction xs arbitrary: s) (auto split: prod.splits bool.splits)


lemma run_count_ok: "run H invoke cb s ops = (True, n, s') \<Longrightarrow> n = length ops"
  by (induction ops arbitrary: s n) (auto split: prod.splits bool.splits)






section \<open>Properties of the label\<close>

lemma interpretOpcode_label:
  "instructionCode opc = Some LABEL \<Longrightarrow>
     interpretOpcode H invoke cb s opc = (True, s\<lparr>mLabel := extract26bitData opc\<rparr>)"
  by (simp add: interpretOpcode_def label_def)

lemma registerApi_keeps_label:
  assumes "callbackKeepsLabel cb" and "registerApi cb s api = (ok, calls, s')"
  shows "mLabel s' = mLabel s"
proof (cases "mRendererFunctions s api")
  case None
  from assms(1) have "mLabel (snd (cb s api)) = mLabel s"
    by (simp add: callbackKeepsLabel_def)
  with None assms(2) show ?thesis
    by (auto simp add: registerApi_def split: prod.splits)
next
  case (Some functionTable)
  with assms(2) show ?thesis
    by (simp add: registerApi_def)
qed

lemma call_keeps_label:
  "callbackKeepsLabel cb \<Longrightarrow> mLabel (snd (call invoke cb s opc)) = mLabel s"
  by (auto simp add: call_def resolveFunction_def
      split: prod.splits option.splits FunctionSource.splits if_splits
      dest: registerApi_keeps_label)

lemma interpretOpcode_keeps_label:
  "instructionCode opc \<noteq> Some LABEL \<Longrightarrow> callbackKeepsLabel cb \<Longrightarrow>
     mLabel (snd (interpretOpcode H invoke cb s opc)) = mLabel s"
  by (auto simp add: interpretOpcode_def call_keeps_label
      split: option.splits InstructionCode.splits prod.splits)

lemma run_keeps_label:
  "\<forall>opc \<in> set ops. instructionCode opc \<noteq> Some LABEL \<Longrightarrow> callbackKeepsLabel cb \<Longrightarrow>
     mLabel (snd (snd (run H invoke cb s ops))) = mLabel s"
proof (induction ops arbitrary: s)
  case Nil
  then show ?case by simp
next
  case (Cons opc ops)
  obtain ok s1 where step: "interpretOpcode H invoke cb s opc = (ok, s1)"
    by (cases "interpretOpcode H invoke cb s opc") auto
  from Cons.prems have "mLabel (snd (interpretOpcode H invoke cb s opc)) = mLabel s"
    by (simp add: interpretOpcode_keeps_label)
  with step have first: "mLabel s1 = mLabel s"
    by simp
  from Cons have rest: "mLabel (snd (snd (run H invoke cb s1 ops))) = mLabel s1"
    by simp
  from step first rest show ?case
    by (cases ok; cases "run H invoke cb s1 ops") simp_all
qed


text \<open>
  In the model an opcode whose code is \<open>LABEL\<close> always succeeds and sets the label to
  its 26-bit data, which \<open>getLabel\<close> then returns. After a run that reached the opcode,
  \<open>getLabel\<close> still returns that value whether the rest of the run succeeds or fails,
  as long as no later \<open>LABEL\<close> replaces it and the registration callback leaves the
  label alone. This rests on the model's handlers, which cannot write the label.
\<close>

lemma label_sets_and_keeps_label:
  "(instructionCode opc = Some LABEL
      \<longrightarrow> interpretOpcode H invoke cb s opc = (True, s\<lparr>mLabel := extract26bitData opc\<rparr>)
        \<and> getLabel (snd (interpretOpcode H invoke cb s opc)) = extract26bitData opc)
   \<and> (instructionCode opc = Some LABEL \<and> fst (run H invoke cb s pre)
       \<and> (\<forall>later \<in> set post. instructionCode later \<noteq> Some LABEL) \<and> callbackKeepsLabel cb
      \<longrightarrow> getLabel (snd (snd (run H invoke cb s (pre @ opc # post)))) = extract26bitData opc)"
proof (intro conjI impI)
  assume "instructionCode opc = Some LABEL"
  then show "interpretOpcode H invoke cb s opc = (True, s\<lparr>mLabel := extract26bitData opc\<rparr>)"
    and "getLabel (snd (interpretOpcode H invoke cb s opc)) = extract26bitData opc"
    by (simp_all add: interpretOpcode_label getLabel_def)
next
  assume a: "instructionCode opc = Some LABEL \<and> fst (run H invoke cb s pre)
       \<and> (\<forall>later \<in> set post. instructionCode later \<noteq> Some LABEL) \<and> callbackKeepsLabel cb"
  obtain n s1 where pre: "run H invoke cb s pre = (True, n, s1)"
    using a by (cases "run H invoke cb s pre") auto
  let ?s2 = "s1\<lparr>mLabel := extract26bitData opc\<rparr>"
  from a have "mLabel (snd (snd (run H invoke cb ?s2 post))) = mLabel ?s2"
    by (intro run_keeps_label) auto
  then have "mLabel (snd (snd (run H invoke cb ?s2 post))) = extract26bitData opc"
    by simp
  with a pre show "getLabel (snd (snd (run H invoke cb s (pre @ opc # post)))) = extract26bitData opc"
    by (cases "run H invoke cb ?s2 post") (simp add: run_append interpretOpcode_label getLabel_def)
qed

section \<open>Properties of function resolution\<close>

text \<open>
  \<open>registerApi\<close> as modelled: a bound api is a success that leaves the interpreter as it
  is and does not invoke the callback; an unbound api invokes the callback once and leaves
  the interpreter as the callback left it, and a callback that answers false makes the
  result false.
\<close>

lemma registerApi_bound:
  "mRendererFunctions s api \<noteq> None \<Longrightarrow> registerApi cb s api = (True, [], s)"
  by (simp add: registerApi_def)

lemma registerApi_unbound:
  "mRendererFunctions s api = None \<Longrightarrow>
     registerApi cb s api = (fst (cb s api) \<and> apiIndexInRange api, [api], snd (cb s api))"
  by (simp add: registerApi_def split: prod.splits)

lemma isBuiltinFunctionId_ids:
  "isBuiltinFunctionId fid \<longleftrightarrow> fid = 0xff00 \<or> fid = 0xff01 \<or> fid = 0xff80 \<or> 0xff81 \<le> fid"
  by (simp add: isBuiltinFunctionId_def POST_FUNCTION_ID_def RESOURCE_FUNCTION_ID_def
      PRINT_STACK_FUNCTION_ID_def)


text \<open>
  The implementation-defined function ids are 0xff00, 0xff01, 0xff80 and the range 0xff81
  to 0xffff. In the model a call whose function id is one of them is resolved in the
  builtin table, whatever is bound for the api index of the opcode.
\<close>

lemma call_builtin_ids:
  "(isBuiltinFunctionId fid \<longleftrightarrow>
      fid = 0xff00 \<or> fid = 0xff01 \<or> fid = 0xff80 \<or> (0xff81 \<le> fid \<and> fid \<le> 0xffff))
   \<and> (isBuiltinFunctionId (extractFunctionId opc)
      \<longrightarrow> functionSource opc = Builtin
        \<and> resolveFunction cb s opc = (mBuiltins s (extractFunctionId opc), [], s)
        \<and> resolveFunction cb (s\<lparr>mRendererFunctions := tables\<rparr>) opc
            = (mBuiltins s (extractFunctionId opc), [], s\<lparr>mRendererFunctions := tables\<rparr>)
        \<and> call invoke cb s opc =
            (case mBuiltins s (extractFunctionId opc) of
               None \<Rightarrow> (False, s)
             | Some f \<Rightarrow>
                 (case invoke f (extractPushReturn opc) (mStack s) of
                    (ok, m') \<Rightarrow> (ok, s\<lparr>mStack := m'\<rparr>))))"
proof -
  have "unat fid < 2 ^ 16"
    using unsigned_less [of fid] by simp
  then have "fid \<le> 0xffff"
    by (simp add: word_le_nat_alt)
  then show ?thesis
    by (auto simp add: isBuiltinFunctionId_ids functionSource_def resolveFunction_def call_def
        split: option.splits)
qed

end
